theory Spec2Isabelle
  imports Complex_Main "HOL-Library.Char_ord" "HOL-Library.List_Lexorder" "HOL-Library.Multiset"
begin

section \<open>Drone deconfliction: data model\<close>

text \<open>
  A shallow embedding of \<^verbatim>\<open>conflict_checker/spatial.py\<close>, \<^verbatim>\<open>conflict_checker/temporal.py\<close>
  and \<^verbatim>\<open>conflict_checker/utils.py\<close>.

  Numbers are values of the type \<^typ>\<open>real\<close>: there is no NaN and no infinity. Every
  comparison, branch and loop of the source is kept. The construction, the interpolation
  and the sampling of one trajectory are given in exact arithmetic first; the interpolation,
  the sampling and the two detectors are then given over a rounding function, so that they
  cover the exact arithmetic and the arithmetic of IEEE-754 doubles alike (section
  \<open>Numbers and rounding\<close>).

  Exceptions are values of the type \<open>error\<close>; a function that can raise returns
  \<open>error + 'a\<close>, with \<open>Inl\<close> for the exception.
\<close>

datatype error =
    ValueError string
  | KeyError string
  | ZeroDivisionError
  | IndexError

text \<open>\<^verbatim>\<open>@dataclass class Waypoint\<close> (spatial.py).\<close>

record Waypoint =
  x :: real
  y :: real
  z :: real
  timestamp :: real

text \<open>\<^verbatim>\<open>@dataclass class Conflict\<close> (temporal.py). Severity and type are Python strings.\<close>

record Conflict =
  drone1_id :: string
  drone2_id :: string
  timestamp :: real
  distance :: real
  position1 :: Waypoint
  position2 :: Waypoint
  severity :: string
  conflict_type :: string

text \<open>\<^verbatim>\<open>class DroneTrajectory\<close>: the two attributes set by \<^verbatim>\<open>__init__\<close>.\<close>

record DroneTrajectory =
  drone_id :: string
  waypoints :: "Waypoint list"

section \<open>Numbers and rounding\<close>

text \<open>
  A Python \<^verbatim>\<open>float\<close> (and a \<^verbatim>\<open>numpy.float64\<close>) is an IEEE-754 binary64 number: every
  arithmetic operation returns the exact result rounded to the nearest number with a
  53-bit significand, a tie going to the even significand. \<open>binary64 v\<close> is that rounding
  for a result in the normal range (no overflow, no subnormal numbers): for
  \<open>2^k \<le> |v| < 2^(k+1)\<close> the spacing of the doubles is \<open>2^(k-52)\<close>.

  The functions that compute with numbers take the rounding as a parameter \<open>rnd\<close>, applied
  to the result of every subtraction, addition, multiplication, division and square root,
  and to every decimal literal. With the identity \<open>\<lambda>v. v\<close> for \<open>rnd\<close> the arithmetic is exact;
  with \<open>binary64\<close> it is the arithmetic that Python performs. Comparisons are exact.
\<close>

definition round_half_even :: "real \<Rightarrow> int" where
  "round_half_even v =
     (let f = \<lfloor>v\<rfloor>; d = v - real_of_int f
      in if d < 1 / 2 then f
         else if 1 / 2 < d then f + 1
         else if even f then f else f + 1)"

definition binary64 :: "real \<Rightarrow> real" where
  "binary64 v =
     (if v = 0 then 0
      else let e = \<lfloor>log 2 \<bar>v\<bar>\<rfloor> - 52
           in real_of_int (round_half_even (v / 2 powi e)) * 2 powi e)"

text \<open>
  Python's \<^verbatim>\<open>round(v, 1)\<close> on a Python number: \<open>10 * v\<close> rounded to the nearest integer, a
  tie going to the even neighbour, divided by 10. The result stands for the double nearest
  to it: two such results are equal exactly when their doubles are.
\<close>

definition py_round1 :: "real \<Rightarrow> real" where
  "py_round1 v = real_of_int (round_half_even (v * 10)) / 10"

text \<open>
  \<^verbatim>\<open>round(v, 1)\<close> on a \<^verbatim>\<open>numpy.float64\<close>, as numpy computes it: \<^verbatim>\<open>rint(v * 10) / 10\<close>, the
  product and the quotient rounded to doubles.
\<close>

definition np_round1 :: "real \<Rightarrow> real" where
  "np_round1 v = binary64 (real_of_int (round_half_even (binary64 (v * 10))) / 10)"

text \<open>Python's \<^verbatim>\<open>int(v)\<close> on a number: truncation towards zero.\<close>

definition py_int :: "real \<Rightarrow> int" where
  "py_int v = (if 0 \<le> v then \<lfloor>v\<rfloor> else \<lceil>v\<rceil>)"

text \<open>
  \<^verbatim>\<open>Waypoint.distance_to\<close>:
  \<^verbatim>\<open>np.sqrt((self.x - other.x)**2 + (self.y - other.y)**2 + (self.z - other.z)**2)\<close>, the
  sum taken from the left. A square is taken as one correctly rounded operation, as the
  product of the number with itself is.
\<close>

definition distance_to :: "(real \<Rightarrow> real) \<Rightarrow> Waypoint \<Rightarrow> Waypoint \<Rightarrow> real" where
  "distance_to rnd self other =
     rnd (sqrt (rnd (rnd (rnd ((rnd (x self - x other))\<^sup>2)
                          + rnd ((rnd (y self - y other))\<^sup>2))
                     + rnd ((rnd (z self - z other))\<^sup>2))))"

section \<open>Trajectory construction\<close>

text \<open>
  \<^verbatim>\<open>_validate_waypoints\<close>: fewer than two waypoints raises, then
  \<^verbatim>\<open>len(set(timestamps)) != len(timestamps)\<close> raises.
\<close>

definition validate_waypoints :: "DroneTrajectory \<Rightarrow> error + unit" where
  "validate_waypoints self =
     (if length (waypoints self) < 2
      then Inl (ValueError (''Drone '' @ drone_id self @ '' must have at least 2 waypoints''))
      else let timestamps = map Waypoint.timestamp (waypoints self)
           in if card (set timestamps) \<noteq> length timestamps
              then Inl (ValueError (''Drone '' @ drone_id self @ '' has duplicate timestamps''))
              else Inr ())"

text \<open>
  \<^verbatim>\<open>__init__\<close>: \<^verbatim>\<open>sorted(waypoints, key=lambda w: w.timestamp)\<close> is a stable sort, as
  \<^const>\<open>sort_key\<close> is; the object exists only if validation does not raise.
\<close>

definition DroneTrajectory_init :: "string \<Rightarrow> Waypoint list \<Rightarrow> error + DroneTrajectory" where
  "DroneTrajectory_init did wps =
     (let self = \<lparr>drone_id = did, waypoints = sort_key Waypoint.timestamp wps\<rparr>
      in case validate_waypoints self of
           Inl e \<Rightarrow> Inl e
         | Inr _ \<Rightarrow> Inr self)"

text \<open>The invariant that a constructed trajectory satisfies.\<close>

definition valid_trajectory :: "DroneTrajectory \<Rightarrow> bool" where
  "valid_trajectory T \<longleftrightarrow>
     2 \<le> length (waypoints T) \<and>
     sorted (map Waypoint.timestamp (waypoints T)) \<and>
     distinct (map Waypoint.timestamp (waypoints T))"

section \<open>Interpolation and sampling\<close>

text \<open>
  The \<^verbatim>\<open>for i in range(len(self.waypoints) - 1)\<close> loop of \<^verbatim>\<open>interpolate_position\<close>: the
  first consecutive pair that brackets the timestamp decides; the guard against equal
  timestamps returns the left waypoint; falling off the loop is \<^verbatim>\<open>return None\<close>.
\<close>

fun interpolate_loop :: "Waypoint list \<Rightarrow> real \<Rightarrow> Waypoint option" where
  "interpolate_loop (w1 # w2 # ws) t =
     (if Waypoint.timestamp w1 \<le> t \<and> t \<le> Waypoint.timestamp w2
      then (if Waypoint.timestamp w2 = Waypoint.timestamp w1 then Some w1
            else let f = (t - Waypoint.timestamp w1) /
                         (Waypoint.timestamp w2 - Waypoint.timestamp w1)
                 in Some \<lparr>x = x w1 + f * (x w2 - x w1),
                          y = y w1 + f * (y w2 - y w1),
                          z = z w1 + f * (z w2 - z w1),
                          timestamp = t\<rparr>)
      else interpolate_loop (w2 # ws) t)"
| "interpolate_loop ws t = None"

text \<open>
  \<^verbatim>\<open>interpolate_position\<close>. \<^verbatim>\<open>self.waypoints[0]\<close> and \<^verbatim>\<open>self.waypoints[-1]\<close> raise
  \<^verbatim>\<open>IndexError\<close> on an empty list; \<open>Inr None\<close> is Python's \<^verbatim>\<open>None\<close>.
\<close>

definition interpolate_position :: "DroneTrajectory \<Rightarrow> real \<Rightarrow> error + Waypoint option" where
  "interpolate_position self t =
     (case waypoints self of
        [] \<Rightarrow> Inl IndexError
      | w # ws \<Rightarrow>
          if t < Waypoint.timestamp w \<or> t > Waypoint.timestamp (last (w # ws))
          then Inr None
          else Inr (interpolate_loop (w # ws) t))"

definition get_trajectory_bounds :: "DroneTrajectory \<Rightarrow> error + real \<times> real" where
  "get_trajectory_bounds self =
     (case waypoints self of
        [] \<Rightarrow> Inl IndexError
      | w # ws \<Rightarrow> Inr (Waypoint.timestamp w, Waypoint.timestamp (last (w # ws))))"

text \<open>
  Modelled from the spec: \<^verbatim>\<open>numpy.linspace(start, stop, num)\<close> is a library function, not
  part of the repository. The spec has it produce \<open>num\<close> evenly spaced timestamps across
  the bounds, inclusive of both ends. As numpy computes it: a negative \<open>num\<close> raises
  \<^verbatim>\<open>ValueError\<close>, \<open>num = 0\<close> gives no sample, \<open>num = 1\<close> gives \<open>[start]\<close>, and otherwise
  sample \<open>i\<close> is \<open>i * step + start\<close> with \<open>step = (stop - start) / (num - 1)\<close>, the last
  sample being set to \<open>stop\<close>.
\<close>

definition linspace :: "real \<Rightarrow> real \<Rightarrow> int \<Rightarrow> error + real list" where
  "linspace start stop num =
     (if num < 0 then Inl (ValueError ''Number of samples must be non-negative.'')
      else if num = 0 then Inr []
      else if num = 1 then Inr [start]
      else let step = (stop - start) / real_of_int (num - 1)
           in Inr (map (\<lambda>i. real i * step + start) [0..<nat num - 1] @ [stop]))"

text \<open>
  \<^verbatim>\<open>[self.interpolate_position(t) for t in timestamps if self.interpolate_position(t)]\<close>:
  a \<^verbatim>\<open>Waypoint\<close> object is always truthy, so the filter drops exactly the \<^verbatim>\<open>None\<close> results.
\<close>

fun sample_loop :: "DroneTrajectory \<Rightarrow> real list \<Rightarrow> error + Waypoint list" where
  "sample_loop self [] = Inr []"
| "sample_loop self (t # ts) =
     (case interpolate_position self t of
        Inl e \<Rightarrow> Inl e
      | Inr None \<Rightarrow> sample_loop self ts
      | Inr (Some p) \<Rightarrow>
          (case sample_loop self ts of
             Inl e \<Rightarrow> Inl e
           | Inr ps \<Rightarrow> Inr (p # ps)))"

definition sample_trajectory :: "DroneTrajectory \<Rightarrow> int \<Rightarrow> error + Waypoint list" where
  "sample_trajectory self num_points =
     (case get_trajectory_bounds self of
        Inl e \<Rightarrow> Inl e
      | Inr (start_time, end_time) \<Rightarrow>
          (case linspace start_time end_time num_points of
             Inl e \<Rightarrow> Inl e
           | Inr timestamps \<Rightarrow> sample_loop self timestamps))"

text \<open>
  The loop of \<^verbatim>\<open>interpolate_position\<close> once more, with the result of every subtraction,
  division, multiplication and addition passed through the rounding function \<open>rnd\<close>. With
  the identity for \<open>rnd\<close> it is \<^const>\<open>interpolate_loop\<close>; with \<^const>\<open>binary64\<close> it is the
  arithmetic that Python performs.
\<close>

fun interpolate_loop_rnd :: "(real \<Rightarrow> real) \<Rightarrow> Waypoint list \<Rightarrow> real \<Rightarrow> Waypoint option" where
  "interpolate_loop_rnd rnd (w1 # w2 # ws) t =
     (if Waypoint.timestamp w1 \<le> t \<and> t \<le> Waypoint.timestamp w2
      then (if Waypoint.timestamp w2 = Waypoint.timestamp w1 then Some w1
            else let f = rnd (rnd (t - Waypoint.timestamp w1) /
                              rnd (Waypoint.timestamp w2 - Waypoint.timestamp w1))
                 in Some \<lparr>x = rnd (x w1 + rnd (f * rnd (x w2 - x w1))),
                          y = rnd (y w1 + rnd (f * rnd (y w2 - y w1))),
                          z = rnd (z w1 + rnd (f * rnd (z w2 - z w1))),
                          timestamp = t\<rparr>)
      else interpolate_loop_rnd rnd (w2 # ws) t)"
| "interpolate_loop_rnd rnd ws t = None"

definition interpolate_position_rnd ::
  "(real \<Rightarrow> real) \<Rightarrow> DroneTrajectory \<Rightarrow> real \<Rightarrow> error + Waypoint option" where
  "interpolate_position_rnd rnd self t =
     (case waypoints self of
        [] \<Rightarrow> Inl IndexError
      | w # ws \<Rightarrow>
          if t < Waypoint.timestamp w \<or> t > Waypoint.timestamp (last (w # ws))
          then Inr None
          else Inr (interpolate_loop_rnd rnd (w # ws) t))"

text \<open>
  Modelled from the spec: \<^verbatim>\<open>numpy.linspace(start, stop, num)\<close> once more, with the roundings
  of numpy's computation: \<open>delta = stop - start\<close> and \<open>step = delta / (num - 1)\<close> are rounded,
  sample \<open>i\<close> is \<open>i * step\<close> rounded, plus \<open>start\<close>, rounded (for a zero step numpy takes
  \<open>i / (num - 1) * delta\<close> in place of \<open>i * step\<close>), and the last sample is set to \<open>stop\<close>.
  For \<open>num = 1\<close> the one sample is \<open>0 * delta + start\<close>.
\<close>

definition linspace_rnd :: "(real \<Rightarrow> real) \<Rightarrow> real \<Rightarrow> real \<Rightarrow> int \<Rightarrow> error + real list" where
  "linspace_rnd rnd start stop num =
     (if num < 0 then Inl (ValueError ''Number of samples must be non-negative.'')
      else if num = 0 then Inr []
      else let delta = rnd (stop - start)
           in if num = 1 then Inr [rnd (rnd (0 * delta) + start)]
              else let divisor = real_of_int (num - 1);
                       step = rnd (delta / divisor)
                   in Inr (map (\<lambda>i. if step = 0
                                     then rnd (rnd (rnd (real i / divisor) * delta) + start)
                                     else rnd (rnd (real i * step) + start))
                               [0..<nat num - 1] @ [stop]))"

text \<open>\<^verbatim>\<open>sample_trajectory\<close> once more, over the rounded interpolation and timestamps.\<close>

fun sample_loop_rnd ::
  "(real \<Rightarrow> real) \<Rightarrow> DroneTrajectory \<Rightarrow> real list \<Rightarrow> error + Waypoint list"
where
  "sample_loop_rnd rnd self [] = Inr []"
| "sample_loop_rnd rnd self (t # ts) =
     (case interpolate_position_rnd rnd self t of
        Inl e \<Rightarrow> Inl e
      | Inr None \<Rightarrow> sample_loop_rnd rnd self ts
      | Inr (Some p) \<Rightarrow>
          (case sample_loop_rnd rnd self ts of
             Inl e \<Rightarrow> Inl e
           | Inr ps \<Rightarrow> Inr (p # ps)))"

definition sample_trajectory_rnd ::
  "(real \<Rightarrow> real) \<Rightarrow> DroneTrajectory \<Rightarrow> int \<Rightarrow> error + Waypoint list"
where
  "sample_trajectory_rnd rnd self num_points =
     (case get_trajectory_bounds self of
        Inl e \<Rightarrow> Inl e
      | Inr (start_time, end_time) \<Rightarrow>
          (case linspace_rnd rnd start_time end_time num_points of
             Inl e \<Rightarrow> Inl e
           | Inr timestamps \<Rightarrow> sample_loop_rnd rnd self timestamps))"



text \<open>
  The Euclidean distance of two positions in the words of the spec,
  \<open>\<surd>(\<Delta>x\<^sup>2 + \<Delta>y\<^sup>2 + \<Delta>z\<^sup>2)\<close>, in the arithmetic \<open>rnd\<close>.
\<close>

definition euclidean :: "(real \<Rightarrow> real) \<Rightarrow> Waypoint \<Rightarrow> Waypoint \<Rightarrow> real" where
  "euclidean rnd p q =
     (let dx = rnd (x p - x q); dy = rnd (y p - y q); dz = rnd (z p - z q)
      in rnd (sqrt (rnd (rnd (rnd (dx * dx) + rnd (dy * dy)) + rnd (dz * dz)))))"

section \<open>Spatial conflict detection\<close>

text \<open>
  The index loops \<^verbatim>\<open>for i in range(len(l)): for j in range(i + 1, len(l))\<close>: every pair
  of an element with a later element, in the order of the loops.
\<close>

fun unordered_pairs :: "'a list \<Rightarrow> ('a \<times> 'a) list" where
  "unordered_pairs [] = []"
| "unordered_pairs (a # as) = map (Pair a) as @ unordered_pairs as"

text \<open>
  A Python dictionary as a list of entries in insertion order; \<^verbatim>\<open>d[k] = v\<close> replaces the
  value of an existing key in place and appends a new key.
\<close>

primrec dict_set :: "'k \<Rightarrow> 'v \<Rightarrow> ('k \<times> 'v) list \<Rightarrow> ('k \<times> 'v) list" where
  "dict_set k v [] = [(k, v)]"
| "dict_set k v (e # es) = (if fst e = k then (k, v) # es else e # dict_set k v es)"

text \<open>
  \<^verbatim>\<open>for traj in trajectories: pos = traj.interpolate_position(timestamp); if pos: ...\<close>,
  with the dictionary \<^verbatim>\<open>positions\<close> passed along. A \<^verbatim>\<open>Waypoint\<close> object is always truthy.
\<close>

fun build_positions ::
  "(real \<Rightarrow> real) \<Rightarrow> DroneTrajectory list \<Rightarrow> real \<Rightarrow> (string \<times> Waypoint) list
   \<Rightarrow> error + (string \<times> Waypoint) list"
where
  "build_positions rnd [] t positions = Inr positions"
| "build_positions rnd (traj # trajs) t positions =
     (case interpolate_position_rnd rnd traj t of
        Inl e \<Rightarrow> Inl e
      | Inr None \<Rightarrow> build_positions rnd trajs t positions
      | Inr (Some pos) \<Rightarrow>
          build_positions rnd trajs t (dict_set (drone_id traj) pos positions))"

text \<open>
  The body of the pair loops of \<^verbatim>\<open>detect_spatial_conflicts\<close> for two entries of
  \<^verbatim>\<open>positions\<close>: the conflicts it appends (none or one). The literals \<^verbatim>\<open>0.3\<close> and \<^verbatim>\<open>0.6\<close>
  are the doubles nearest to these decimals.
\<close>

definition spatial_pair_check ::
  "(real \<Rightarrow> real) \<Rightarrow> real \<Rightarrow> real \<Rightarrow> string \<times> Waypoint \<Rightarrow> string \<times> Waypoint \<Rightarrow> Conflict list"
where
  "spatial_pair_check rnd min_separation t e1 e2 =
     (let pos1 = snd e1; pos2 = snd e2;
          dist = distance_to rnd pos1 pos2
      in if dist < min_separation
         then [\<lparr>drone1_id = fst e1, drone2_id = fst e2, timestamp = t, distance = dist,
                position1 = pos1, position2 = pos2,
                severity = (if dist < rnd (min_separation * rnd 0.3) then ''high''
                            else if dist < rnd (min_separation * rnd 0.6) then ''medium''
                            else ''low''),
                conflict_type = ''spatial''\<rparr>]
         else [])"

text \<open>
  One round of \<^verbatim>\<open>for timestamp in time_samples\<close>. The keys of a dictionary are distinct,
  so \<^verbatim>\<open>positions[drone_ids[i]]\<close> is the value of the \<open>i\<close>-th entry.
\<close>

definition spatial_at ::
  "(real \<Rightarrow> real) \<Rightarrow> DroneTrajectory list \<Rightarrow> real \<Rightarrow> real \<Rightarrow> error + Conflict list"
where
  "spatial_at rnd trajectories min_separation t =
     (case build_positions rnd trajectories t [] of
        Inl e \<Rightarrow> Inl e
      | Inr positions \<Rightarrow>
          Inr (concat (map (\<lambda>(e1, e2). spatial_pair_check rnd min_separation t e1 e2)
                           (unordered_pairs positions))))"

fun spatial_time_loop ::
  "(real \<Rightarrow> real) \<Rightarrow> DroneTrajectory list \<Rightarrow> real \<Rightarrow> real list \<Rightarrow> error + Conflict list"
where
  "spatial_time_loop rnd trajectories min_separation [] = Inr []"
| "spatial_time_loop rnd trajectories min_separation (t # ts) =
     (case spatial_at rnd trajectories min_separation t of
        Inl e \<Rightarrow> Inl e
      | Inr cs \<Rightarrow>
          (case spatial_time_loop rnd trajectories min_separation ts of
             Inl e \<Rightarrow> Inl e
           | Inr rest \<Rightarrow> Inr (cs @ rest)))"

text \<open>\<^verbatim>\<open>[traj.get_trajectory_bounds() for traj in trajectories]\<close>, the first error raised.\<close>

fun all_bounds :: "DroneTrajectory list \<Rightarrow> error + (real \<times> real) list" where
  "all_bounds [] = Inr []"
| "all_bounds (traj # trajs) =
     (case get_trajectory_bounds traj of
        Inl e \<Rightarrow> Inl e
      | Inr b \<Rightarrow> (case all_bounds trajs of Inl e \<Rightarrow> Inl e | Inr bs \<Rightarrow> Inr (b # bs)))"

text \<open>
  \<^verbatim>\<open>detect_spatial_conflicts\<close>. A division by a zero \<^verbatim>\<open>time_resolution\<close> raises
  \<^verbatim>\<open>ZeroDivisionError\<close>; \<^verbatim>\<open>int\<close> truncates the rounded quotient
  \<^verbatim>\<open>(global_end - global_start) / time_resolution\<close>.
\<close>

definition detect_spatial_conflicts ::
  "(real \<Rightarrow> real) \<Rightarrow> DroneTrajectory list \<Rightarrow> real \<Rightarrow> real \<Rightarrow> error + Conflict list"
where
  "detect_spatial_conflicts rnd trajectories min_separation time_resolution =
     (if length trajectories < 2 then Inr []
      else case all_bounds trajectories of
        Inl e \<Rightarrow> Inl e
      | Inr bounds \<Rightarrow>
          let global_start = Max (set (map fst bounds));
              global_end = Min (set (map snd bounds))
          in if global_start \<ge> global_end then Inr []
             else if time_resolution = 0 then Inl ZeroDivisionError
             else let num_samples =
                        py_int (rnd (rnd (global_end - global_start) / time_resolution)) + 1
                  in case linspace_rnd rnd global_start global_end num_samples of
                       Inl e \<Rightarrow> Inl e
                     | Inr time_samples \<Rightarrow>
                         spatial_time_loop rnd trajectories min_separation time_samples)"



section \<open>Temporal conflict detection\<close>

text \<open>
  The body of the sample loops of \<^verbatim>\<open>detect_temporal_conflicts\<close> for one cross pair of
  samples: the conflicts it appends (none or one).
\<close>

definition temporal_pair_check ::
  "(real \<Rightarrow> real) \<Rightarrow> DroneTrajectory \<Rightarrow> DroneTrajectory \<Rightarrow> real \<Rightarrow> real \<Rightarrow> Waypoint \<Rightarrow> Waypoint
   \<Rightarrow> Conflict list"
where
  "temporal_pair_check rnd traj1 traj2 time_window min_separation wp1 wp2 =
     (let dist = distance_to rnd wp1 wp2
      in if dist < min_separation
         then (let time_diff = \<bar>rnd (Waypoint.timestamp wp1 - Waypoint.timestamp wp2)\<bar>
               in if 0 < time_diff \<and> time_diff \<le> time_window
                  then [\<lparr>drone1_id = drone_id traj1, drone2_id = drone_id traj2,
                         timestamp = min (Waypoint.timestamp wp1) (Waypoint.timestamp wp2),
                         distance = dist, position1 = wp1, position2 = wp2,
                         severity = (if time_diff < rnd (time_window * rnd 0.3) then ''high''
                                     else ''medium''),
                         conflict_type = ''temporal''\<rparr>]
                  else [])
         else [])"

text \<open>\<^verbatim>\<open>for wp1 in samples1: for wp2 in samples2: ...\<close>\<close>

definition temporal_cross ::
  "(real \<Rightarrow> real) \<Rightarrow> DroneTrajectory \<Rightarrow> DroneTrajectory \<Rightarrow> real \<Rightarrow> real
   \<Rightarrow> Waypoint list \<Rightarrow> Waypoint list \<Rightarrow> Conflict list"
where
  "temporal_cross rnd traj1 traj2 time_window min_separation samples1 samples2 =
     concat (map (\<lambda>wp1.
       concat (map (\<lambda>wp2. temporal_pair_check rnd traj1 traj2 time_window min_separation wp1 wp2)
                   samples2))
       samples1)"

text \<open>
  \<^verbatim>\<open>for j in range(i + 1, len(trajectories))\<close> for a fixed \<open>traj1 = trajectories[i]\<close>; both
  trajectories are sampled at 50 points in every round.
\<close>

fun temporal_j_loop ::
  "(real \<Rightarrow> real) \<Rightarrow> DroneTrajectory \<Rightarrow> DroneTrajectory list \<Rightarrow> real \<Rightarrow> real
   \<Rightarrow> error + Conflict list"
where
  "temporal_j_loop rnd traj1 [] time_window min_separation = Inr []"
| "temporal_j_loop rnd traj1 (traj2 # trajs) time_window min_separation =
     (case sample_trajectory_rnd rnd traj1 50 of
        Inl e \<Rightarrow> Inl e
      | Inr samples1 \<Rightarrow>
          (case sample_trajectory_rnd rnd traj2 50 of
             Inl e \<Rightarrow> Inl e
           | Inr samples2 \<Rightarrow>
               (case temporal_j_loop rnd traj1 trajs time_window min_separation of
                  Inl e \<Rightarrow> Inl e
                | Inr rest \<Rightarrow>
                    Inr (temporal_cross rnd traj1 traj2 time_window min_separation
                           samples1 samples2
                         @ rest))))"

text \<open>\<^verbatim>\<open>for i in range(len(trajectories))\<close>\<close>

fun temporal_i_loop ::
  "(real \<Rightarrow> real) \<Rightarrow> DroneTrajectory list \<Rightarrow> real \<Rightarrow> real \<Rightarrow> error + Conflict list"
where
  "temporal_i_loop rnd [] time_window min_separation = Inr []"
| "temporal_i_loop rnd (traj1 # trajs) time_window min_separation =
     (case temporal_j_loop rnd traj1 trajs time_window min_separation of
        Inl e \<Rightarrow> Inl e
      | Inr cs \<Rightarrow>
          (case temporal_i_loop rnd trajs time_window min_separation of
             Inl e \<Rightarrow> Inl e
           | Inr rest \<Rightarrow> Inr (cs @ rest)))"

definition detect_temporal_conflicts ::
  "(real \<Rightarrow> real) \<Rightarrow> DroneTrajectory list \<Rightarrow> real \<Rightarrow> real \<Rightarrow> error + Conflict list"
where
  "detect_temporal_conflicts rnd trajectories time_window min_separation =
     temporal_i_loop rnd trajectories time_window min_separation"

text \<open>
  The temporal detector in the words of the spec: a cross pair of sampled points is
  reported when the Euclidean distance of the points is less than the minimum separation
  and their time difference is greater than 0 and at most the time window; the conflict is
  stamped with the earlier of the two times, and is \<open>high\<close> below 0.3 of the window, else
  \<open>medium\<close>.
\<close>

definition temporal_reported ::
  "(real \<Rightarrow> real) \<Rightarrow> real \<Rightarrow> real \<Rightarrow> Waypoint \<times> Waypoint \<Rightarrow> bool"
where
  "temporal_reported rnd time_window min_separation pr \<longleftrightarrow>
     euclidean rnd (fst pr) (snd pr) < min_separation
     \<and> 0 < \<bar>rnd (Waypoint.timestamp (fst pr) - Waypoint.timestamp (snd pr))\<bar>
     \<and> \<bar>rnd (Waypoint.timestamp (fst pr) - Waypoint.timestamp (snd pr))\<bar> \<le> time_window"



section \<open>Conflict set operations (utils.py)\<close>

text \<open>
  The deduplication key of \<^verbatim>\<open>merge_conflicts\<close>:
  \<^verbatim>\<open>(tuple(sorted([c.drone1_id, c.drone2_id])), round(c.timestamp, 1))\<close>. Strings are
  compared lexicographically, character by character. What \<^verbatim>\<open>round(\<dots>, 1)\<close> computes
  depends on the type of the timestamp, so it is the parameter \<open>round1\<close>: the detectors
  store \<^verbatim>\<open>numpy.float64\<close> timestamps, rounded by \<^const>\<open>np_round1\<close>; a conflict built from a
  Python number is rounded by \<^const>\<open>py_round1\<close>.
\<close>

definition conflict_key :: "(real \<Rightarrow> real) \<Rightarrow> Conflict \<Rightarrow> string list \<times> real" where
  "conflict_key round1 c =
     (sort [drone1_id c, drone2_id c], round1 (Conflict.timestamp c))"

text \<open>
  The loop of \<^verbatim>\<open>merge_conflicts\<close> over \<^verbatim>\<open>all_conflicts\<close>, with the set \<^verbatim>\<open>seen\<close> passed
  along; the result is \<^verbatim>\<open>unique_conflicts\<close> in the order of the appends.
\<close>

fun merge_loop ::
  "(real \<Rightarrow> real) \<Rightarrow> (string list \<times> real) set \<Rightarrow> Conflict list \<Rightarrow> Conflict list"
where
  "merge_loop round1 seen [] = []"
| "merge_loop round1 seen (c # cs) =
     (let key = conflict_key round1 c
      in if key \<notin> seen then c # merge_loop round1 (insert key seen) cs
         else merge_loop round1 seen cs)"


text \<open>
  \<^verbatim>\<open>severity_order = {'low': 0, 'medium': 1, 'high': 2}\<close>; a lookup of a missing key raises
  \<^verbatim>\<open>KeyError\<close>.
\<close>

definition severity_order :: "string \<rightharpoonup> nat" where
  "severity_order = map_of [(''low'', 0), (''medium'', 1), (''high'', 2)]"

text \<open>
  The comprehension \<^verbatim>\<open>[c for c in conflicts if severity_order[c.severity] >= min_level]\<close>:
  the lookup runs for every conflict, in order, and the first missing key raises.
\<close>

fun filter_loop :: "nat \<Rightarrow> Conflict list \<Rightarrow> error + Conflict list" where
  "filter_loop min_level [] = Inr []"
| "filter_loop min_level (c # cs) =
     (case severity_order (severity c) of
        None \<Rightarrow> Inl (KeyError (severity c))
      | Some level \<Rightarrow>
          (case filter_loop min_level cs of
             Inl e \<Rightarrow> Inl e
           | Inr rest \<Rightarrow> Inr (if level \<ge> min_level then c # rest else rest)))"

definition filter_conflicts_by_severity :: "Conflict list \<Rightarrow> string \<Rightarrow> error + Conflict list" where
  "filter_conflicts_by_severity conflicts min_severity =
     (case severity_order min_severity of
        None \<Rightarrow> Inl (KeyError min_severity)
      | Some min_level \<Rightarrow> filter_loop min_level conflicts)"

text \<open>
  The severity rank in the words of the spec (\<open>low = 0, medium = 1, high = 2\<close>), for the
  three recognised levels.
\<close>

definition recognised_severity :: "string \<Rightarrow> bool" where
  "recognised_severity s \<longleftrightarrow> s = ''low'' \<or> s = ''medium'' \<or> s = ''high''"

definition severity_rank :: "string \<Rightarrow> nat" where
  "severity_rank s = (if s = ''low'' then 0 else if s = ''medium'' then 1 else 2)"

section \<open>Dictionary representations\<close>

text \<open>
  The values that \<^verbatim>\<open>to_dict\<close> puts into a dictionary: numbers, strings and nested
  dictionaries. A dictionary is a list of key/value pairs in insertion order.
\<close>

datatype pyval =
    PyFloat real
  | PyStr string
  | PyDict "(string \<times> pyval) list"

text \<open>\<^verbatim>\<open>data[key]\<close>: a missing key raises \<^verbatim>\<open>KeyError\<close>.\<close>

definition dict_get :: "(string \<times> pyval) list \<Rightarrow> string \<Rightarrow> error + pyval" where
  "dict_get data key =
     (case map_of data key of None \<Rightarrow> Inl (KeyError key) | Some v \<Rightarrow> Inr v)"

definition Waypoint_to_dict :: "Waypoint \<Rightarrow> (string \<times> pyval) list" where
  "Waypoint_to_dict self =
     [(''x'', PyFloat (x self)), (''y'', PyFloat (y self)), (''z'', PyFloat (z self)),
      (''timestamp'', PyFloat (Waypoint.timestamp self))]"

text \<open>
  \<^verbatim>\<open>Waypoint.from_dict\<close> reads the four keys in the order \<^verbatim>\<open>x, y, z, timestamp\<close>. The record
  \<^typ>\<open>Waypoint\<close> holds numbers only: a value that is not a number is reported as
  \<open>Inr None\<close> (Python's dataclass would store it unchecked, which the typed record cannot
  express).
\<close>

definition Waypoint_from_dict :: "(string \<times> pyval) list \<Rightarrow> error + Waypoint option" where
  "Waypoint_from_dict data =
     (case dict_get data ''x'' of Inl e \<Rightarrow> Inl e | Inr vx \<Rightarrow>
      case dict_get data ''y'' of Inl e \<Rightarrow> Inl e | Inr vy \<Rightarrow>
      case dict_get data ''z'' of Inl e \<Rightarrow> Inl e | Inr vz \<Rightarrow>
      case dict_get data ''timestamp'' of Inl e \<Rightarrow> Inl e | Inr vt \<Rightarrow>
      (case (vx, vy, vz, vt) of
         (PyFloat a, PyFloat b, PyFloat c, PyFloat d) \<Rightarrow>
           Inr (Some \<lparr>x = a, y = b, z = c, timestamp = d\<rparr>)
       | _ \<Rightarrow> Inr None))"

text \<open>\<^verbatim>\<open>Conflict.to_dict\<close>. The class has no \<^verbatim>\<open>from_dict\<close>.\<close>

definition Conflict_to_dict :: "Conflict \<Rightarrow> (string \<times> pyval) list" where
  "Conflict_to_dict self =
     [(''drone1_id'', PyStr (drone1_id self)),
      (''drone2_id'', PyStr (drone2_id self)),
      (''timestamp'', PyFloat (Conflict.timestamp self)),
      (''distance'', PyFloat (distance self)),
      (''position1'', PyDict (Waypoint_to_dict (position1 self))),
      (''position2'', PyDict (Waypoint_to_dict (position2 self))),
      (''severity'', PyStr (severity self)),
      (''conflict_type'', PyStr (conflict_type self))]"

section \<open>Construction: proofs\<close>

lemma card_set_neq_length: "card (set xs) \<noteq> length xs \<longleftrightarrow> \<not> distinct xs"
  using card_distinct distinct_card by blast

lemma validate_waypoints_Inl:
  "isl (validate_waypoints T) \<longleftrightarrow>
     length (waypoints T) < 2 \<or> \<not> distinct (map Waypoint.timestamp (waypoints T))"
  by (simp add: validate_waypoints_def Let_def card_set_neq_length)

lemma distinct_map_sort_key: "distinct (map f (sort_key f xs)) = distinct (map f xs)"
  by (induction xs) (simp_all add: distinct_insort_key)

lemma init_Inl_iff:
  "isl (DroneTrajectory_init did wps) \<longleftrightarrow>
     length wps < 2 \<or> \<not> distinct (map Waypoint.timestamp wps)"
proof -
  let ?self = "\<lparr>drone_id = did, waypoints = sort_key Waypoint.timestamp wps\<rparr>"
  have "isl (DroneTrajectory_init did wps) = isl (validate_waypoints ?self)"
    by (simp add: DroneTrajectory_init_def Let_def split: sum.splits)
  then show ?thesis
    by (simp add: validate_waypoints_Inl distinct_map_sort_key)
qed

lemma init_Inr:
  assumes "2 \<le> length wps" "distinct (map Waypoint.timestamp wps)"
  shows "DroneTrajectory_init did wps =
           Inr \<lparr>drone_id = did, waypoints = sort_key Waypoint.timestamp wps\<rparr>"
proof -
  let ?self = "\<lparr>drone_id = did, waypoints = sort_key Waypoint.timestamp wps\<rparr>"
  have "\<not> isl (validate_waypoints ?self)"
    using assms by (simp add: validate_waypoints_Inl distinct_map_sort_key)
  then obtain u where "validate_waypoints ?self = Inr u"
    by (cases "validate_waypoints ?self") auto
  then show ?thesis
    by (simp add: DroneTrajectory_init_def Let_def)
qed

lemma init_valid:
  assumes "DroneTrajectory_init did wps = Inr T"
  shows "valid_trajectory T"
proof -
  have "\<not> isl (DroneTrajectory_init did wps)" using assms by simp
  then have ok: "2 \<le> length wps" "distinct (map Waypoint.timestamp wps)"
    by (auto simp: init_Inl_iff)
  from init_Inr [OF ok] assms
  have "T = \<lparr>drone_id = did, waypoints = sort_key Waypoint.timestamp wps\<rparr>" by simp
  then show ?thesis using ok
    by (simp add: valid_trajectory_def distinct_map_sort_key)
qed

lemma valid_is_constructed:
  assumes "valid_trajectory T"
  shows "DroneTrajectory_init (drone_id T) (waypoints T) = Inr T"
proof -
  have "sort_key Waypoint.timestamp (waypoints T) = waypoints T"
    using assms by (simp add: valid_trajectory_def sort_key_id_if_sorted)
  then show ?thesis
    using assms init_Inr [of "waypoints T" "drone_id T"] by (simp add: valid_trajectory_def)
qed

lemma sort_key_perm_distinct:
  assumes "mset xs = mset ys" "distinct (map f xs)"
  shows "sort_key f xs = sort_key f ys"
proof -
  have sets: "set xs = set ys" by (rule mset_eq_setD [OF assms(1)])
  have inj: "inj_on f (set xs)" using assms(2) by (simp add: distinct_map)
  have "mset (map f xs) = mset (map f ys)" by (simp only: mset_map assms(1))
  then have dys: "distinct (map f ys)" using assms(2) by (metis mset_eq_imp_distinct_iff)
  have "map f (sort_key f xs) = map f (sort_key f ys)"
  proof (rule sorted_distinct_set_unique)
    show "set (map f (sort_key f xs)) = set (map f (sort_key f ys))"
      by (simp add: sets)
  qed (simp_all add: distinct_map_sort_key assms(2) dys)
  moreover have "inj_on f (set (sort_key f xs) \<union> set (sort_key f ys))"
    using inj by (simp add: sets)
  ultimately show ?thesis
    by (rule map_inj_on)
qed

text \<open>
  Claim C7. Constructing a trajectory from a drone ID and waypoints raises (a
  \<^verbatim>\<open>ValueError\<close>) exactly when there are fewer than two waypoints or two waypoints share
  a timestamp. Otherwise it succeeds with the waypoints sorted by timestamp, and the
  outcome is the same for every ordering of the same waypoints.
\<close>

theorem C7_construction_fails_iff:
  "(isl (DroneTrajectory_init did wps) \<longleftrightarrow>
      length wps < 2 \<or> \<not> distinct (map Waypoint.timestamp wps))
   \<and> DroneTrajectory_init did wps =
       (if length wps < 2
        then Inl (ValueError (''Drone '' @ did @ '' must have at least 2 waypoints''))
        else if \<not> distinct (map Waypoint.timestamp wps)
        then Inl (ValueError (''Drone '' @ did @ '' has duplicate timestamps''))
        else Inr \<lparr>drone_id = did, waypoints = sort_key Waypoint.timestamp wps\<rparr>)
   \<and> (\<forall>wps'. mset wps' = mset wps \<longrightarrow>
        DroneTrajectory_init did wps' = DroneTrajectory_init did wps)"
proof (intro conjI allI impI)
  show "isl (DroneTrajectory_init did wps) \<longleftrightarrow>
          length wps < 2 \<or> \<not> distinct (map Waypoint.timestamp wps)"
    by (rule init_Inl_iff)
next
  show "DroneTrajectory_init did wps =
       (if length wps < 2
        then Inl (ValueError (''Drone '' @ did @ '' must have at least 2 waypoints''))
        else if \<not> distinct (map Waypoint.timestamp wps)
        then Inl (ValueError (''Drone '' @ did @ '' has duplicate timestamps''))
        else Inr \<lparr>drone_id = did, waypoints = sort_key Waypoint.timestamp wps\<rparr>)"
    by (simp add: DroneTrajectory_init_def validate_waypoints_def Let_def
                  card_set_neq_length distinct_map_sort_key)
next
  fix wps' assume p: "mset wps' = mset wps"
  have len: "length wps' = length wps" by (rule mset_eq_length [OF p])
  have "mset (map Waypoint.timestamp wps') = mset (map Waypoint.timestamp wps)"
    by (simp only: mset_map p)
  then have dis: "distinct (map Waypoint.timestamp wps') = distinct (map Waypoint.timestamp wps)"
    by (rule mset_eq_imp_distinct_iff)
  show "DroneTrajectory_init did wps' = DroneTrajectory_init did wps"
  proof (cases "distinct (map Waypoint.timestamp wps)")
    case True
    then have "sort_key Waypoint.timestamp wps' = sort_key Waypoint.timestamp wps"
      using sort_key_perm_distinct [of wps' wps Waypoint.timestamp] p dis by simp
    then show ?thesis
      by (simp add: DroneTrajectory_init_def)
  next
    case False
    then show ?thesis using dis len
      by (simp add: DroneTrajectory_init_def validate_waypoints_def Let_def
                    card_set_neq_length distinct_map_sort_key)
  qed
qed

theorem C7_construction_witness:
  "DroneTrajectory_init ''d1''
     [\<lparr>x = 100, y = 0, z = 100, timestamp = 10\<rparr>, \<lparr>x = 0, y = 0, z = 100, timestamp = 0\<rparr>]
   = Inr \<lparr>drone_id = ''d1'', waypoints =
        [\<lparr>x = 0, y = 0, z = 100, timestamp = 0\<rparr>, \<lparr>x = 100, y = 0, z = 100, timestamp = 10\<rparr>]\<rparr>
   \<and> DroneTrajectory_init ''d1''
     [\<lparr>x = 0, y = 0, z = 100, timestamp = 0\<rparr>, \<lparr>x = 100, y = 0, z = 100, timestamp = 10\<rparr>]
   = DroneTrajectory_init ''d1''
     [\<lparr>x = 100, y = 0, z = 100, timestamp = 10\<rparr>, \<lparr>x = 0, y = 0, z = 100, timestamp = 0\<rparr>]
   \<and> isl (DroneTrajectory_init ''d1'' [\<lparr>x = 0, y = 0, z = 100, timestamp = 0\<rparr>])
   \<and> isl (DroneTrajectory_init ''d1''
     [\<lparr>x = 0, y = 0, z = 100, timestamp = 3\<rparr>, \<lparr>x = 5, y = 0, z = 100, timestamp = 3\<rparr>])"
proof -
  let ?a = "\<lparr>x = 0, y = 0, z = 100, timestamp = 0::real\<rparr>"
  let ?b = "\<lparr>x = 100, y = 0, z = 100, timestamp = 10::real\<rparr>"
  have perm: "mset [?a, ?b] = mset [?b, ?a]" by simp
  note ok = C7_construction_fails_iff [of "''d1''" "[?b, ?a]"]
  note few = C7_construction_fails_iff [of "''d1''" "[?a]"]
  note dup = C7_construction_fails_iff [of "''d1''"
      "[\<lparr>x = 0, y = 0, z = 100, timestamp = 3\<rparr>, \<lparr>x = 5, y = 0, z = 100, timestamp = 3\<rparr>]"]
  have 1: "DroneTrajectory_init ''d1'' [?b, ?a] = Inr \<lparr>drone_id = ''d1'', waypoints = [?a, ?b]\<rparr>"
    using ok by simp
  have 2: "DroneTrajectory_init ''d1'' [?a, ?b] = DroneTrajectory_init ''d1'' [?b, ?a]"
    using ok perm by blast
  have 3: "isl (DroneTrajectory_init ''d1'' [?a])"
    using few by simp
  have 4: "isl (DroneTrajectory_init ''d1''
      [\<lparr>x = 0, y = 0, z = 100, timestamp = 3\<rparr>, \<lparr>x = 5, y = 0, z = 100, timestamp = 3\<rparr>])"
    using dup by simp
  show ?thesis using 1 2 3 4 by blast
qed

section \<open>Interpolation: proofs\<close>

lemma interpolate_loop_in_range:
  "\<lbrakk>2 \<le> length ws; Waypoint.timestamp (hd ws) \<le> t; t \<le> Waypoint.timestamp (last ws)\<rbrakk>
   \<Longrightarrow> \<exists>p. interpolate_loop ws t = Some p"
proof (induction ws t rule: interpolate_loop.induct)
  case (1 w1 w2 ws t)
  show ?case
  proof (cases "Waypoint.timestamp w1 \<le> t \<and> t \<le> Waypoint.timestamp w2")
    case True
    then show ?thesis by (simp add: Let_def)
  next
    case False
    with "1.prems" have lt: "Waypoint.timestamp w2 < t" by simp
    have "ws \<noteq> []"
    proof
      assume "ws = []"
      with "1.prems" lt show False by simp
    qed
    then have "2 \<le> length (w2 # ws)" by (cases ws) simp_all
    moreover have "Waypoint.timestamp (hd (w2 # ws)) \<le> t" using lt by simp
    moreover have "t \<le> Waypoint.timestamp (last (w2 # ws))" using "1.prems" by simp
    ultimately have "\<exists>p. interpolate_loop (w2 # ws) t = Some p"
      using "1.IH" False by blast
    then show ?thesis using False by simp
  qed
qed simp_all

lemma valid_bounds:
  assumes "valid_trajectory T"
  shows "get_trajectory_bounds T =
           Inr (Waypoint.timestamp (hd (waypoints T)), Waypoint.timestamp (last (waypoints T)))"
  using assms by (cases "waypoints T") (simp_all add: valid_trajectory_def get_trajectory_bounds_def)

lemma valid_interpolate:
  assumes "valid_trajectory T"
  shows "interpolate_position T t =
           (if t < Waypoint.timestamp (hd (waypoints T)) \<or> t > Waypoint.timestamp (last (waypoints T))
            then Inr None else Inr (interpolate_loop (waypoints T) t))"
  using assms by (cases "waypoints T") (simp_all add: valid_trajectory_def interpolate_position_def)

text \<open>
  Claim C6. For a valid trajectory with time bounds \<open>(start, end)\<close>,
  \<^verbatim>\<open>interpolate_position(t)\<close> never raises, returns \<^verbatim>\<open>None\<close> exactly when \<open>t < start\<close> or
  \<open>t > end\<close>, and returns a position for every \<open>t\<close> within the bounds.
\<close>

theorem C6_no_value_iff_outside_bounds:
  assumes "valid_trajectory T"
    and "get_trajectory_bounds T = Inr (start, end)"
  shows "(interpolate_position T t = Inr None \<longleftrightarrow> t < start \<or> end < t)
       \<and> (start \<le> t \<and> t \<le> end \<longrightarrow> (\<exists>p. interpolate_position T t = Inr (Some p)))"
proof -
  from assms valid_bounds [OF assms(1)]
  have se: "start = Waypoint.timestamp (hd (waypoints T))"
           "end = Waypoint.timestamp (last (waypoints T))"
    by simp_all
  have len: "2 \<le> length (waypoints T)" using assms(1) by (simp add: valid_trajectory_def)
  show ?thesis
  proof (cases "t < start \<or> end < t")
    case True
    then show ?thesis using valid_interpolate [OF assms(1), of t] se by auto
  next
    case False
    then have "start \<le> t" "t \<le> end" by simp_all
    then obtain p where "interpolate_loop (waypoints T) t = Some p"
      using interpolate_loop_in_range [OF len, of t] se by auto
    then show ?thesis using valid_interpolate [OF assms(1), of t] se False by auto
  qed
qed

theorem C6_no_value_witness:
  "valid_trajectory \<lparr>drone_id = ''d1'', waypoints =
      [\<lparr>x = 0, y = 0, z = 100, timestamp = 0\<rparr>, \<lparr>x = 100, y = 0, z = 100, timestamp = 10\<rparr>]\<rparr>
   \<and> get_trajectory_bounds \<lparr>drone_id = ''d1'', waypoints =
      [\<lparr>x = 0, y = 0, z = 100, timestamp = 0\<rparr>, \<lparr>x = 100, y = 0, z = 100, timestamp = 10\<rparr>]\<rparr>
     = Inr (0, 10)
   \<and> interpolate_position \<lparr>drone_id = ''d1'', waypoints =
      [\<lparr>x = 0, y = 0, z = 100, timestamp = 0\<rparr>, \<lparr>x = 100, y = 0, z = 100, timestamp = 10\<rparr>]\<rparr> 11
     = Inr None
   \<and> (\<exists>p. interpolate_position \<lparr>drone_id = ''d1'', waypoints =
      [\<lparr>x = 0, y = 0, z = 100, timestamp = 0\<rparr>, \<lparr>x = 100, y = 0, z = 100, timestamp = 10\<rparr>]\<rparr> 5
     = Inr (Some p))"
proof -
  let ?T = "\<lparr>drone_id = ''d1'', waypoints =
      [\<lparr>x = 0, y = 0, z = 100, timestamp = 0\<rparr>, \<lparr>x = 100, y = 0, z = 100, timestamp = 10\<rparr>]\<rparr>"
  have v: "valid_trajectory ?T" by (simp add: valid_trajectory_def)
  have b: "get_trajectory_bounds ?T = Inr (0, 10)" by (simp add: get_trajectory_bounds_def)
  have "interpolate_position ?T 11 = Inr None"
    using C6_no_value_iff_outside_bounds [OF v b, of 11] by simp
  moreover have "\<exists>p. interpolate_position ?T 5 = Inr (Some p)"
    using C6_no_value_iff_outside_bounds [OF v b, of 5] by simp
  ultimately show ?thesis using v b by blast
qed

lemma sorted_distinct_Cons2:
  assumes "sorted (map f (a # b # ws))" "distinct (map f (a # b # ws))"
  shows "f a < f b" "\<forall>w \<in> set ws. f b < f w"
  using assms by (auto simp: less_le)

lemma interpolate_loop_at_waypoint:
  "\<lbrakk>sorted (map Waypoint.timestamp ws); distinct (map Waypoint.timestamp ws); w \<in> set ws;
    2 \<le> length ws\<rbrakk>
   \<Longrightarrow> interpolate_loop ws (Waypoint.timestamp w) = Some w"
proof (induction ws "Waypoint.timestamp w" rule: interpolate_loop.induct)
  case (1 w1 w2 ws)
  have lt: "Waypoint.timestamp w1 < Waypoint.timestamp w2"
    and gt: "\<forall>v \<in> set ws. Waypoint.timestamp w2 < Waypoint.timestamp v"
    using sorted_distinct_Cons2 [OF "1.prems"(1,2)] by simp_all
  consider "w = w1" | "w = w2" | "w \<in> set ws" "w \<noteq> w1" "w \<noteq> w2"
    using "1.prems"(3) by auto
  then show ?case
  proof cases
    case 1
    then show ?thesis using lt by (simp add: Let_def)
  next
    case 2
    then show ?thesis using lt by (simp add: Let_def)
  next
    case 3
    then have far: "Waypoint.timestamp w2 < Waypoint.timestamp w" using gt by simp
    then have nb: "\<not> (Waypoint.timestamp w1 \<le> Waypoint.timestamp w
                     \<and> Waypoint.timestamp w \<le> Waypoint.timestamp w2)" by simp
    have "2 \<le> length (w2 # ws)" using 3(1) by (cases ws) simp_all
    moreover have "sorted (map Waypoint.timestamp (w2 # ws))"
      "distinct (map Waypoint.timestamp (w2 # ws))" "w \<in> set (w2 # ws)"
      using "1.prems" 3(1) by simp_all
    ultimately have "interpolate_loop (w2 # ws) (Waypoint.timestamp w) = Some w"
      using "1.hyps" nb by blast
    moreover have "\<not> Waypoint.timestamp w \<le> Waypoint.timestamp w2" using far by simp
    ultimately show ?thesis by simp
  qed
qed simp_all

lemma sorted_map_le_last:
  "sorted (map f ws) \<Longrightarrow> w \<in> set ws \<Longrightarrow> f w \<le> f (last ws)"
  by (induction ws) auto

lemma sorted_map_hd_le:
  "sorted (map f ws) \<Longrightarrow> w \<in> set ws \<Longrightarrow> f (hd ws) \<le> f w"
  by (cases ws) auto

lemma interpolate_at_waypoint:
  assumes "valid_trajectory T" and "w \<in> set (waypoints T)"
  shows "interpolate_position T (Waypoint.timestamp w) = Inr (Some w)"
proof -
  have s: "sorted (map Waypoint.timestamp (waypoints T))"
    and d: "distinct (map Waypoint.timestamp (waypoints T))"
    and l: "2 \<le> length (waypoints T)"
    using assms(1) by (simp_all add: valid_trajectory_def)
  have lo: "Waypoint.timestamp (hd (waypoints T)) \<le> Waypoint.timestamp w"
    by (rule sorted_map_hd_le [OF s assms(2)])
  have hi: "Waypoint.timestamp w \<le> Waypoint.timestamp (last (waypoints T))"
    by (rule sorted_map_le_last [OF s assms(2)])
  show ?thesis
    using valid_interpolate [OF assms(1), of "Waypoint.timestamp w"] lo hi
          interpolate_loop_at_waypoint [OF s d assms(2) l]
    by simp
qed

section \<open>Sampling: proofs\<close>

lemma interpolate_loop_timestamp:
  "interpolate_loop ws t = Some p \<Longrightarrow> Waypoint.timestamp p = t"
  by (induction ws t rule: interpolate_loop.induct) (auto simp: Let_def split: if_splits)

lemma linspace_ge2:
  assumes "2 \<le> n"
  shows "linspace a b n =
     Inr (map (\<lambda>i. real i * ((b - a) / real_of_int (n - 1)) + a) [0..<nat n - 1] @ [b])"
  using assms by (simp add: linspace_def Let_def)

lemma linspace_points_in_range:
  assumes "2 \<le> n" "a \<le> b"
    and "t \<in> set (map (\<lambda>i. real i * ((b - a) / real_of_int (n - 1)) + a) [0..<nat n - 1] @ [b])"
  shows "a \<le> t \<and> t \<le> b"
proof -
  have pos: "0 < real_of_int (n - 1)" using assms(1) by simp
  show ?thesis
  proof (cases "t = b")
    case True then show ?thesis using assms(2) by simp
  next
    case False
    with assms(3) obtain i where i: "i < nat n - 1" "t = real i * ((b - a) / real_of_int (n - 1)) + a"
      by auto
    have "real i \<le> real_of_int (n - 1)" using i(1) by linarith
    then have "real i / real_of_int (n - 1) \<le> 1" using pos by (simp add: divide_le_eq)
    then have "(real i / real_of_int (n - 1)) * (b - a) \<le> 1 * (b - a)"
      using assms(2) by (intro mult_right_mono) simp_all
    moreover have "0 \<le> (real i / real_of_int (n - 1)) * (b - a)"
      using pos assms(2) by simp
    ultimately show ?thesis using i(2) by (simp add: field_simps)
  qed
qed

lemma linspace_strict:
  assumes "2 \<le> n" "a < b"
  shows "sorted_wrt (<) (map (\<lambda>i. real i * ((b - a) / real_of_int (n - 1)) + a) [0..<nat n - 1] @ [b])"
proof -
  have pos: "0 < real_of_int (n - 1)" using assms(1) by simp
  then have step: "0 < (b - a) / real_of_int (n - 1)" using assms(2) by simp
  define s where "s = (b - a) / real_of_int (n - 1)"
  have spos: "0 < s" using step by (simp add: s_def)
  have "sorted_wrt (\<lambda>i j. real i * s + a < real j * s + a) [0..<nat n - 1]"
    by (rule sorted_wrt_mono_rel [OF _ sorted_wrt_upt]) (use spos in simp)
  then have 1: "sorted_wrt (<) (map (\<lambda>i. real i * ((b - a) / real_of_int (n - 1)) + a) [0..<nat n - 1])"
    by (simp add: sorted_wrt_map s_def)
  have 2: "real i * ((b - a) / real_of_int (n - 1)) + a < b" if "i < nat n - 1" for i
  proof -
    have "real i < real_of_int (n - 1)" using that by linarith
    then have "real i / real_of_int (n - 1) < 1" using pos by (simp add: divide_less_eq)
    then have "(real i / real_of_int (n - 1)) * (b - a) < 1 * (b - a)"
      using assms(2) by (intro mult_strict_right_mono) simp_all
    then show ?thesis by (simp add: field_simps)
  qed
  show ?thesis using 1 2 by (auto simp: sorted_wrt_append)
qed

lemma sample_loop_in_range:
  assumes "valid_trajectory T"
    and "\<forall>t \<in> set ts. Waypoint.timestamp (hd (waypoints T)) \<le> t \<and> t \<le> Waypoint.timestamp (last (waypoints T))"
  shows "\<exists>ps. sample_loop T ts = Inr ps \<and> map Waypoint.timestamp ps = ts"
  using assms(2)
proof (induction ts)
  case Nil
  then show ?case by simp
next
  case (Cons t ts)
  have len: "2 \<le> length (waypoints T)" using assms(1) by (simp add: valid_trajectory_def)
  from Cons.prems obtain p where p: "interpolate_loop (waypoints T) t = Some p"
    using interpolate_loop_in_range [OF len, of t] by auto
  then have ip: "interpolate_position T t = Inr (Some p)"
    using valid_interpolate [OF assms(1), of t] Cons.prems by auto
  from Cons obtain ps where ps: "sample_loop T ts = Inr ps" "map Waypoint.timestamp ps = ts"
    by auto
  show ?case using ip ps interpolate_loop_timestamp [OF p] by simp
qed

lemma valid_start_lt_end:
  assumes "valid_trajectory T"
  shows "Waypoint.timestamp (hd (waypoints T)) < Waypoint.timestamp (last (waypoints T))"
proof -
  obtain w1 w2 ws where ws: "waypoints T = w1 # w2 # ws"
    using assms by (cases "waypoints T"; cases "tl (waypoints T)") (auto simp: valid_trajectory_def)
  have s: "sorted (map Waypoint.timestamp (w1 # w2 # ws))"
    and d: "distinct (map Waypoint.timestamp (w1 # w2 # ws))"
    using assms ws by (simp_all add: valid_trajectory_def)
  have "Waypoint.timestamp w1 < Waypoint.timestamp w2"
    using sorted_distinct_Cons2(1) [OF s d] .
  moreover have "Waypoint.timestamp w2 \<le> Waypoint.timestamp (last (w2 # ws))"
    using s by (intro sorted_map_le_last) simp_all
  ultimately show ?thesis using ws by simp
qed

lemma hd_map_timestamp: "ps \<noteq> [] \<Longrightarrow> Waypoint.timestamp (hd ps) = hd (map Waypoint.timestamp ps)"
  by (simp add: hd_map)

lemma last_map_timestamp: "ps \<noteq> [] \<Longrightarrow> Waypoint.timestamp (last ps) = last (map Waypoint.timestamp ps)"
  by (simp add: last_map)

lemma sample_trajectory_ge2:
  assumes "valid_trajectory T" and n: "2 \<le> n"
  shows "\<exists>ps. sample_trajectory T n = Inr ps \<and> int (length ps) = n
              \<and> sorted (map Waypoint.timestamp ps)
              \<and> distinct (map Waypoint.timestamp ps)
              \<and> Waypoint.timestamp (hd ps) = Waypoint.timestamp (hd (waypoints T))
              \<and> Waypoint.timestamp (last ps) = Waypoint.timestamp (last (waypoints T))"
proof -
  define start where "start = Waypoint.timestamp (hd (waypoints T))"
  define end' where "end' = Waypoint.timestamp (last (waypoints T))"
  have b: "get_trajectory_bounds T = Inr (start, end')"
    using valid_bounds [OF assms(1)] by (simp add: start_def end'_def)
  have lt: "start < end'" using valid_start_lt_end [OF assms(1)] by (simp add: start_def end'_def)
  let ?L = "map (\<lambda>i. real i * ((end' - start) / real_of_int (n - 1)) + start) [0..<nat n - 1] @ [end']"
  have lin: "linspace start end' n = Inr ?L" by (rule linspace_ge2 [OF n])
  have "\<forall>t \<in> set ?L. Waypoint.timestamp (hd (waypoints T)) \<le> t
                      \<and> t \<le> Waypoint.timestamp (last (waypoints T))"
    using linspace_points_in_range [OF n, of start end'] lt by (auto simp: start_def end'_def)
  from sample_loop_in_range [OF assms(1) this]
  obtain ps where ps: "sample_loop T ?L = Inr ps" "map Waypoint.timestamp ps = ?L"
    by blast
  have st: "sample_trajectory T n = Inr ps"
    using b lin ps(1) by (simp add: sample_trajectory_def)
  have ne: "ps \<noteq> []" using ps(2) by auto
  have "length ps = length ?L" using ps(2) by (metis length_map)
  then have len: "int (length ps) = n" using n by simp
  have strict: "sorted_wrt (<) (map Waypoint.timestamp ps)"
    using linspace_strict [OF n lt] ps(2) by simp
  have "[0..<nat n - 1] = 0 # [1..<nat n - 1]" using n by (simp add: upt_conv_Cons)
  then have "hd ?L = start" by simp
  then have h: "Waypoint.timestamp (hd ps) = start"
    using hd_map_timestamp [OF ne] ps(2) by simp
  have l: "Waypoint.timestamp (last ps) = end'"
    using last_map_timestamp [OF ne] ps(2) by simp
  show ?thesis using st len strict h l by (auto simp: strict_sorted_iff start_def end'_def)
qed

text \<open>
  Claim C8, as the code has it. For a valid trajectory with bounds \<open>(start, end)\<close> and
  \<open>n \<ge> 2\<close>, \<^verbatim>\<open>sample_trajectory(n)\<close> returns exactly \<open>n\<close> waypoints whose timestamps are
  strictly increasing, the first at \<open>start\<close> and the last at \<open>end\<close>. For \<open>n = 1\<close> it
  returns the single sample at \<open>start\<close>, for \<open>n = 0\<close> the empty list, and a negative \<open>n\<close>
  raises.
\<close>

theorem C8_sample_trajectory:
  assumes "valid_trajectory T"
    and "get_trajectory_bounds T = Inr (start, end)"
  shows "(2 \<le> n \<longrightarrow>
           (\<exists>ps. sample_trajectory T n = Inr ps \<and> int (length ps) = n
              \<and> sorted (map Waypoint.timestamp ps)
              \<and> distinct (map Waypoint.timestamp ps)
              \<and> Waypoint.timestamp (hd ps) = start
              \<and> Waypoint.timestamp (last ps) = end))
       \<and> (n = 1 \<longrightarrow>
           (\<exists>p. sample_trajectory T n = Inr [p] \<and> Waypoint.timestamp p = start))
       \<and> (n = 0 \<longrightarrow> sample_trajectory T n = Inr [])
       \<and> (n < 0 \<longrightarrow>
           sample_trajectory T n = Inl (ValueError ''Number of samples must be non-negative.''))"
proof -
  from assms valid_bounds [OF assms(1)]
  have se: "start = Waypoint.timestamp (hd (waypoints T))"
           "end = Waypoint.timestamp (last (waypoints T))"
    by simp_all
  have lt: "start < end" using valid_start_lt_end [OF assms(1)] se by simp
  have A: "\<exists>ps. sample_trajectory T n = Inr ps \<and> int (length ps) = n
              \<and> sorted (map Waypoint.timestamp ps)
              \<and> distinct (map Waypoint.timestamp ps)
              \<and> Waypoint.timestamp (hd ps) = start
              \<and> Waypoint.timestamp (last ps) = end" if n: "2 \<le> n"
    using sample_trajectory_ge2 [OF assms(1) n] se by simp
  have B: "\<exists>p. sample_trajectory T 1 = Inr [p] \<and> Waypoint.timestamp p = start"
  proof -
    have "\<forall>t \<in> set [start]. Waypoint.timestamp (hd (waypoints T)) \<le> t
                        \<and> t \<le> Waypoint.timestamp (last (waypoints T))"
      using lt se by simp
    from sample_loop_in_range [OF assms(1) this]
    obtain ps where ps: "sample_loop T [start] = Inr ps" "map Waypoint.timestamp ps = [start]"
      by (elim exE conjE)
    then obtain p where "ps = [p]" "Waypoint.timestamp p = start" by (cases ps) auto
    then show ?thesis using ps(1) assms(2) by (simp add: sample_trajectory_def linspace_def)
  qed
  have C: "sample_trajectory T 0 = Inr []"
    using assms(2) by (simp add: sample_trajectory_def linspace_def)
  have D: "sample_trajectory T n = Inl (ValueError ''Number of samples must be non-negative.'')"
    if "n < 0"
    using assms(2) that by (simp add: sample_trajectory_def linspace_def)
  show ?thesis
  proof (intro conjI impI)
    assume "2 \<le> n" then show "\<exists>ps. sample_trajectory T n = Inr ps \<and> int (length ps) = n
              \<and> sorted (map Waypoint.timestamp ps)
              \<and> distinct (map Waypoint.timestamp ps)
              \<and> Waypoint.timestamp (hd ps) = start
              \<and> Waypoint.timestamp (last ps) = end" by (rule A)
  next
    assume "n = 1" then show "\<exists>p. sample_trajectory T n = Inr [p] \<and> Waypoint.timestamp p = start"
      using B by simp
  next
    assume "n = 0" then show "sample_trajectory T n = Inr []" using C by simp
  next
    assume "n < 0"
    then show "sample_trajectory T n = Inl (ValueError ''Number of samples must be non-negative.'')"
      by (rule D)
  qed
qed

theorem C8_sample_trajectory_witness:
  "valid_trajectory \<lparr>drone_id = ''d1'', waypoints =
      [\<lparr>x = 0, y = 0, z = 100, timestamp = 0\<rparr>, \<lparr>x = 100, y = 0, z = 100, timestamp = 10\<rparr>]\<rparr>
   \<and> (\<exists>ps. sample_trajectory \<lparr>drone_id = ''d1'', waypoints =
      [\<lparr>x = 0, y = 0, z = 100, timestamp = 0\<rparr>, \<lparr>x = 100, y = 0, z = 100, timestamp = 10\<rparr>]\<rparr> 3
        = Inr ps \<and> int (length ps) = 3
        \<and> sorted (map Waypoint.timestamp ps) \<and> distinct (map Waypoint.timestamp ps)
        \<and> Waypoint.timestamp (hd ps) = 0 \<and> Waypoint.timestamp (last ps) = 10)
   \<and> (\<exists>p. sample_trajectory \<lparr>drone_id = ''d1'', waypoints =
      [\<lparr>x = 0, y = 0, z = 100, timestamp = 0\<rparr>, \<lparr>x = 100, y = 0, z = 100, timestamp = 10\<rparr>]\<rparr> 1
        = Inr [p] \<and> Waypoint.timestamp p = 0)
   \<and> sample_trajectory \<lparr>drone_id = ''d1'', waypoints =
      [\<lparr>x = 0, y = 0, z = 100, timestamp = 0\<rparr>, \<lparr>x = 100, y = 0, z = 100, timestamp = 10\<rparr>]\<rparr> 0
        = Inr []
   \<and> sample_trajectory \<lparr>drone_id = ''d1'', waypoints =
      [\<lparr>x = 0, y = 0, z = 100, timestamp = 0\<rparr>, \<lparr>x = 100, y = 0, z = 100, timestamp = 10\<rparr>]\<rparr> (- 1)
        = Inl (ValueError ''Number of samples must be non-negative.'')"
proof -
  let ?T = "\<lparr>drone_id = ''d1'', waypoints =
      [\<lparr>x = 0, y = 0, z = 100, timestamp = 0\<rparr>, \<lparr>x = 100, y = 0, z = 100, timestamp = 10\<rparr>]\<rparr>"
  have v: "valid_trajectory ?T" by (simp add: valid_trajectory_def)
  have b: "get_trajectory_bounds ?T = Inr (0, 10)" by (simp add: get_trajectory_bounds_def)
  note C8_sample_trajectory [OF v b, of 3] C8_sample_trajectory [OF v b, of 1]
       C8_sample_trajectory [OF v b, of 0] C8_sample_trajectory [OF v b, of "- 1"]
  then show ?thesis using v by simp
qed

text \<open>
  The claim as stated, for every \<open>n\<close>, fails at \<open>n = 1\<close>: the only sample is the one at
  the start of the trajectory, so the last timestamp of the result is 0 and not the end
  bound 10.
\<close>

theorem C8_single_sample_counterexample:
  "get_trajectory_bounds \<lparr>drone_id = ''d1'', waypoints =
      [\<lparr>x = 0, y = 0, z = 100, timestamp = 0\<rparr>, \<lparr>x = 100, y = 0, z = 100, timestamp = 10\<rparr>]\<rparr>
     = Inr (0, 10)
   \<and> sample_trajectory \<lparr>drone_id = ''d1'', waypoints =
      [\<lparr>x = 0, y = 0, z = 100, timestamp = 0\<rparr>, \<lparr>x = 100, y = 0, z = 100, timestamp = 10\<rparr>]\<rparr> 1
     = Inr [\<lparr>x = 0, y = 0, z = 100, timestamp = 0\<rparr>]
   \<and> Waypoint.timestamp (last [\<lparr>x = 0, y = 0, z = 100, timestamp = 0\<rparr>]) \<noteq> 10"
  by (simp add: get_trajectory_bounds_def sample_trajectory_def linspace_def
                interpolate_position_def Let_def)

section \<open>Rounding: proofs\<close>


lemma binary64_zero: "binary64 0 = 0"
  by (simp add: binary64_def)

lemma binary64_binade:
  assumes "2 powi k \<le> \<bar>v\<bar>" "\<bar>v\<bar> < 2 powi (k + 1)"
  shows "binary64 v = real_of_int (round_half_even (v / 2 powi (k - 52))) * 2 powi (k - 52)"
proof -
  have pos: "0 < \<bar>v\<bar>" using assms(1) by (smt (verit) zero_less_power_int)
  have "(2::real) powr real_of_int k = 2 powi k"
    by (rule powr_real_of_int') simp_all
  moreover have "(2::real) powr (real_of_int k + 1) = 2 powi (k + 1)"
    using powr_real_of_int' [of "2::real" "k + 1"] by simp
  ultimately have "2 powr real_of_int k \<le> \<bar>v\<bar>" "\<bar>v\<bar> < 2 powr (real_of_int k + 1)"
    using assms by simp_all
  then have "\<lfloor>log 2 \<bar>v\<bar>\<rfloor> = k"
    using floor_log_eq_powr_iff [of "\<bar>v\<bar>" 2 k] pos by simp
  then show ?thesis using pos by (simp add: binary64_def Let_def)
qed

lemma round_half_even_int: "round_half_even (real_of_int n) = n"
  by (simp add: round_half_even_def)

lemma binary64_10: "binary64 10 = 10"
  using binary64_binade [of 3 10] round_half_even_int [of "10 * 2 ^ 49"]
  by (simp add: power_int_minus)

lemma binary64_1: "binary64 1 = 1"
  using binary64_binade [of 0 1] round_half_even_int [of "2 ^ 52"]
  by (simp add: power_int_minus)

lemma binary64_minus_1e16: "binary64 (- 10000000000000000) = - 10000000000000000"
  using binary64_binade [of 53 "- 10000000000000000"] round_half_even_int [of "- 5000000000000000"]
  by simp

lemma binary64_tie: "binary64 (- 9999999999999999) = - 10000000000000000"
proof -
  have "round_half_even (- 9999999999999999 / 2) = - 5000000000000000"
    by (simp add: round_half_even_def Let_def)
  then show ?thesis
    using binary64_binade [of 53 "- 9999999999999999"] by simp
qed




text \<open>
  The two roundings differ: for the double \<^verbatim>\<open>0.45\<close>, \<open>8106479329266893 / 2^54\<close>, numpy rounds
  the product with 10 to 4.5 and then to the even 4, which gives the double \<^verbatim>\<open>0.4\<close>; Python's
  own \<^verbatim>\<open>round\<close> gives 0.5.
\<close>

lemma round1_numpy_python_differ:
  "np_round1 (8106479329266893 / 18014398509481984) = 3602879701896397 / 9007199254740992
   \<and> py_round1 (8106479329266893 / 18014398509481984) = 1 / 2"
proof -
  have r1: "round_half_even (81064793292668930 / 18014398509481984 * 1125899906842624) = 5066549580791808"
    by (simp add: round_half_even_def Let_def)
  have a: "binary64 (8106479329266893 / 18014398509481984 * 10) = 9 / 2"
    using binary64_binade [of 2 "81064793292668930 / 18014398509481984"] r1
    by (simp add: power_int_minus field_simps)
  have r2: "round_half_even (9 / 2) = 4" by (simp add: round_half_even_def Let_def)
  have r3: "round_half_even (4 / 10 * 18014398509481984) = 7205759403792794"
    by (simp add: round_half_even_def Let_def)
  have b: "binary64 (real_of_int 4 / 10) = 3602879701896397 / 9007199254740992"
    using binary64_binade [of "- 2" "4 / 10"] r3
    by (simp add: power_int_minus field_simps)
  have c: "round_half_even (8106479329266893 / 18014398509481984 * 10) = 5"
    by (simp add: round_half_even_def Let_def)
  have "np_round1 (8106479329266893 / 18014398509481984)
      = binary64 (real_of_int (round_half_even
          (binary64 (8106479329266893 / 18014398509481984 * 10))) / 10)"
    by (simp only: np_round1_def)
  also have "\<dots> = binary64 (real_of_int 4 / 10)" by (simp only: a r2)
  finally have n: "np_round1 (8106479329266893 / 18014398509481984)
      = 3602879701896397 / 9007199254740992" by (simp only: b)
  have "py_round1 (8106479329266893 / 18014398509481984) = real_of_int 5 / 10"
    by (simp only: py_round1_def c)
  then show ?thesis using n by simp
qed






lemma euclidean_exact:
  "euclidean (\<lambda>v. v) p q = sqrt ((x p - x q)\<^sup>2 + (y p - y q)\<^sup>2 + (z p - z q)\<^sup>2)"
  by (simp add: euclidean_def Let_def power2_eq_square)











text \<open>
  Sample 27 of \<^verbatim>\<open>linspace(0, 10, 50)\<close> and of \<^verbatim>\<open>linspace(5, 15, 50)\<close> as doubles, and their
  difference: the step is the double nearest to \<open>10/49\<close>.
\<close>

lemma step49: "binary64 (binary64 (10 - 0) / 49) = 919101964769489 / 4503599627370496"
proof -
  have r: "round_half_even (10 / 49 * 36028797018963968) = 7352815718155912"
    by (simp add: round_half_even_def Let_def)
  have "binary64 (10 / 49) = 919101964769489 / 4503599627370496"
    using binary64_binade [of "- 3" "10 / 49"] r
    by (simp add: power_int_minus field_simps)
  then show ?thesis by (simp add: binary64_10)
qed

lemma sample27: "binary64 (24815753048776203 / 4503599627370496)
    = 6203938262194051 / 1125899906842624"
proof -
  have r: "round_half_even (24815753048776203 / 4503599627370496 * 1125899906842624) = 6203938262194051"
    by (simp add: round_half_even_def Let_def)
  show ?thesis
    using binary64_binade [of 2 "24815753048776203 / 4503599627370496"] r
    by (simp add: power_int_minus field_simps)
qed

lemma sample27_A: "binary64 (6203938262194051 / 1125899906842624 + 0)
    = 6203938262194051 / 1125899906842624"
proof -
  have r: "round_half_even (6203938262194051 / 1125899906842624 * 1125899906842624) = 6203938262194051"
    by (simp add: round_half_even_def Let_def)
  show ?thesis
    using binary64_binade [of 2 "6203938262194051 / 1125899906842624"] r
    by (simp add: power_int_minus field_simps)
qed

lemma sample27_B: "binary64 (6203938262194051 / 1125899906842624 + 5)
    = 2958359449101793 / 281474976710656"
proof -
  have r: "round_half_even (11833437796407171 / 1125899906842624 * 562949953421312) = 5916718898203586"
    by (simp add: round_half_even_def Let_def)
  have "binary64 (11833437796407171 / 1125899906842624) = 2958359449101793 / 281474976710656"
    using binary64_binade [of 3 "11833437796407171 / 1125899906842624"] r
    by (simp add: power_int_minus field_simps)
  then show ?thesis by simp
qed

lemma diff27: "binary64 (6203938262194051 / 1125899906842624 - 2958359449101793 / 281474976710656)
    = - (5629499534213121 / 1125899906842624)"
proof -
  have r: "round_half_even (- 5629499534213121 / 1125899906842624 * 1125899906842624) = - 5629499534213121"
    by (simp add: round_half_even_def Let_def)
  have "binary64 (- 5629499534213121 / 1125899906842624) = - (5629499534213121 / 1125899906842624)"
    using binary64_binade [of 2 "- 5629499534213121 / 1125899906842624"] r
    by (simp add: power_int_minus field_simps)
  then show ?thesis by simp
qed

section \<open>Conflict set operations and representations: proofs\<close>

lemma merge_loop_subset: "set (merge_loop r seen cs) \<subseteq> set cs"
  by (induction cs arbitrary: seen) (auto simp: Let_def)









lemma severity_order_recognised:
  "recognised_severity s \<Longrightarrow> severity_order s = Some (severity_rank s)"
  by (auto simp: recognised_severity_def severity_order_def severity_rank_def)

lemma severity_order_unrecognised:
  "\<not> recognised_severity s \<Longrightarrow> severity_order s = None"
  by (auto simp: recognised_severity_def severity_order_def)

lemma filter_loop_recognised:
  "\<forall>c \<in> set cs. recognised_severity (severity c) \<Longrightarrow>
   filter_loop m cs = Inr (filter (\<lambda>c. m \<le> severity_rank (severity c)) cs)"
  by (induction cs) (auto simp: severity_order_recognised)

text \<open>
  Claim C9. For conflicts whose severities are among the three recognised levels,
  \<^verbatim>\<open>filter_conflicts_by_severity\<close> raises (a \<^verbatim>\<open>KeyError\<close> on the argument) exactly when
  \<open>min_severity\<close> is not one of \<open>low\<close>, \<open>medium\<close>, \<open>high\<close>, and otherwise returns, in order,
  exactly the conflicts whose rank is at least the rank of \<open>min_severity\<close>.
\<close>

theorem C9_filter_by_severity:
  assumes "\<forall>c \<in> set cs. recognised_severity (severity c)"
  shows "(isl (filter_conflicts_by_severity cs min_severity) \<longleftrightarrow> \<not> recognised_severity min_severity)
       \<and> (recognised_severity min_severity \<longrightarrow>
            filter_conflicts_by_severity cs min_severity =
              Inr (filter (\<lambda>c. severity_rank min_severity \<le> severity_rank (severity c)) cs))
       \<and> (\<not> recognised_severity min_severity \<longrightarrow>
            filter_conflicts_by_severity cs min_severity = Inl (KeyError min_severity))"
proof (cases "recognised_severity min_severity")
  case True
  then show ?thesis
    using filter_loop_recognised [OF assms]
    by (simp add: filter_conflicts_by_severity_def severity_order_recognised)
next
  case False
  then show ?thesis
    by (simp add: filter_conflicts_by_severity_def severity_order_unrecognised)
qed

theorem C9_filter_by_severity_witness:
  "filter_conflicts_by_severity
      [\<lparr>drone1_id = ''d1'', drone2_id = ''d2'', timestamp = 5, distance = 10,
         position1 = \<lparr>x = 0, y = 0, z = 100, timestamp = 5\<rparr>,
         position2 = \<lparr>x = 10, y = 10, z = 100, timestamp = 5\<rparr>,
         severity = ''high'', conflict_type = ''spatial''\<rparr>,
       \<lparr>drone1_id = ''d1'', drone2_id = ''d3'', timestamp = 6, distance = 15,
         position1 = \<lparr>x = 0, y = 0, z = 100, timestamp = 5\<rparr>,
         position2 = \<lparr>x = 10, y = 10, z = 100, timestamp = 5\<rparr>,
         severity = ''low'', conflict_type = ''temporal''\<rparr>] ''high''
   = Inr [\<lparr>drone1_id = ''d1'', drone2_id = ''d2'', timestamp = 5, distance = 10,
         position1 = \<lparr>x = 0, y = 0, z = 100, timestamp = 5\<rparr>,
         position2 = \<lparr>x = 10, y = 10, z = 100, timestamp = 5\<rparr>,
         severity = ''high'', conflict_type = ''spatial''\<rparr>]
   \<and> filter_conflicts_by_severity
      [\<lparr>drone1_id = ''d1'', drone2_id = ''d2'', timestamp = 5, distance = 10,
         position1 = \<lparr>x = 0, y = 0, z = 100, timestamp = 5\<rparr>,
         position2 = \<lparr>x = 10, y = 10, z = 100, timestamp = 5\<rparr>,
         severity = ''high'', conflict_type = ''spatial''\<rparr>,
       \<lparr>drone1_id = ''d1'', drone2_id = ''d3'', timestamp = 6, distance = 15,
         position1 = \<lparr>x = 0, y = 0, z = 100, timestamp = 5\<rparr>,
         position2 = \<lparr>x = 10, y = 10, z = 100, timestamp = 5\<rparr>,
         severity = ''low'', conflict_type = ''temporal''\<rparr>] ''critical''
   = Inl (KeyError ''critical'')"
proof -
  let ?cs = "[\<lparr>drone1_id = ''d1'', drone2_id = ''d2'', timestamp = 5, distance = 10,
         position1 = \<lparr>x = 0, y = 0, z = 100, timestamp = 5\<rparr>,
         position2 = \<lparr>x = 10, y = 10, z = 100, timestamp = 5\<rparr>,
         severity = ''high'', conflict_type = ''spatial''\<rparr>,
       \<lparr>drone1_id = ''d1'', drone2_id = ''d3'', timestamp = 6, distance = 15,
         position1 = \<lparr>x = 0, y = 0, z = 100, timestamp = 5\<rparr>,
         position2 = \<lparr>x = 10, y = 10, z = 100, timestamp = 5\<rparr>,
         severity = ''low'', conflict_type = ''temporal''\<rparr>]"
  have h: "\<forall>c \<in> set ?cs. recognised_severity (severity c)"
    by (simp add: recognised_severity_def)
  have 1: "recognised_severity ''high''" by (simp add: recognised_severity_def)
  have 2: "\<not> recognised_severity ''critical''" by (simp add: recognised_severity_def)
  show ?thesis
    using C9_filter_by_severity [OF h, of "''high''"] C9_filter_by_severity [OF h, of "''critical''"]
          1 2
    by (simp add: severity_rank_def)
qed

lemma Waypoint_roundtrip: "Waypoint_from_dict (Waypoint_to_dict w) = Inr (Some w)"
  by (simp add: Waypoint_from_dict_def Waypoint_to_dict_def dict_get_def)

lemma Waypoint_to_dict_inj: "Waypoint_to_dict a = Waypoint_to_dict b \<Longrightarrow> a = b"
  by (cases a, cases b) (simp add: Waypoint_to_dict_def)

lemma Conflict_to_dict_inj: "Conflict_to_dict a = Conflict_to_dict b \<Longrightarrow> a = b"
  by (cases a, cases b) (auto simp: Conflict_to_dict_def dest: Waypoint_to_dict_inj)

text \<open>
  Claim C4, as the code has it. A waypoint is reconstructed from its dictionary:
  \<^verbatim>\<open>Waypoint.from_dict(w.to_dict()) == w\<close>. A conflict has \<^verbatim>\<open>to_dict\<close> only; that
  representation is lossless (two conflicts with the same dictionary are equal), but the
  code has no function that reconstructs a conflict from it.
\<close>

theorem C4_waypoint_roundtrip_conflict_lossless:
  "Waypoint_from_dict (Waypoint_to_dict w) = Inr (Some w)
   \<and> (\<forall>c c'. Conflict_to_dict c = Conflict_to_dict c' \<longrightarrow> c = c')"
  using Waypoint_roundtrip Conflict_to_dict_inj by blast

theorem C4_roundtrip_witness:
  "Waypoint_from_dict (Waypoint_to_dict \<lparr>x = 3, y = 4, z = 0, timestamp = 1\<rparr>)
     = Inr (Some \<lparr>x = 3, y = 4, z = 0, timestamp = 1\<rparr>)
   \<and> Conflict_to_dict
        \<lparr>drone1_id = ''d1'', drone2_id = ''d2'', timestamp = 5, distance = 10,
         position1 = \<lparr>x = 0, y = 0, z = 100, timestamp = 5\<rparr>,
         position2 = \<lparr>x = 10, y = 0, z = 100, timestamp = 5\<rparr>,
         severity = ''high'', conflict_type = ''spatial''\<rparr>
     \<noteq> Conflict_to_dict
        \<lparr>drone1_id = ''d1'', drone2_id = ''d2'', timestamp = 5, distance = 10,
         position1 = \<lparr>x = 0, y = 0, z = 100, timestamp = 5\<rparr>,
         position2 = \<lparr>x = 10, y = 0, z = 100, timestamp = 5\<rparr>,
         severity = ''low'', conflict_type = ''spatial''\<rparr>"
proof -
  let ?a = "\<lparr>drone1_id = ''d1'', drone2_id = ''d2'', timestamp = 5, distance = 10,
         position1 = \<lparr>x = 0, y = 0, z = 100, timestamp = 5\<rparr>,
         position2 = \<lparr>x = 10, y = 0, z = 100, timestamp = 5\<rparr>,
         severity = ''high'', conflict_type = ''spatial''\<rparr>"
  let ?b = "\<lparr>drone1_id = ''d1'', drone2_id = ''d2'', timestamp = 5, distance = 10,
         position1 = \<lparr>x = 0, y = 0, z = 100, timestamp = 5\<rparr>,
         position2 = \<lparr>x = 10, y = 0, z = 100, timestamp = 5\<rparr>,
         severity = ''low'', conflict_type = ''spatial''\<rparr>"
  note t = C4_waypoint_roundtrip_conflict_lossless [of "\<lparr>x = 3, y = 4, z = 0, timestamp = 1\<rparr>"]
  have ne: "?a \<noteq> ?b" by simp
  have "Conflict_to_dict ?a \<noteq> Conflict_to_dict ?b" using t ne by blast
  then show ?thesis using t by blast
qed

text \<open>
  The claim as stated, for conflicts: the only reconstruction function of the code,
  \<^verbatim>\<open>Waypoint.from_dict\<close>, raises \<^verbatim>\<open>KeyError('x')\<close> on the dictionary of a conflict.
\<close>

theorem C4_conflict_no_reconstruction_counterexample:
  "Waypoint_from_dict (Conflict_to_dict
        \<lparr>drone1_id = ''d1'', drone2_id = ''d2'', timestamp = 5, distance = 10,
         position1 = \<lparr>x = 0, y = 0, z = 100, timestamp = 5\<rparr>,
         position2 = \<lparr>x = 10, y = 0, z = 100, timestamp = 5\<rparr>,
         severity = ''high'', conflict_type = ''spatial''\<rparr>)
   = Inl (KeyError ''x'')"
  by (simp add: Waypoint_from_dict_def Conflict_to_dict_def dict_get_def)

section \<open>Detectors: proofs\<close>

text \<open>
  Claim C10. For a list of fewer than two trajectories (the empty list included), both
  detectors return the empty conflict list and do not raise, in every arithmetic.
\<close>

theorem C10_fewer_than_two:
  assumes "length trajs < 2"
  shows "detect_spatial_conflicts rnd trajs ms res = Inr []
       \<and> detect_temporal_conflicts rnd trajs tw ms = Inr []"
proof -
  have "trajs = [] \<or> (\<exists>T. trajs = [T])"
    using assms by (cases trajs; cases "tl trajs") auto
  then have "temporal_i_loop rnd trajs tw ms = Inr []" by auto
  then show ?thesis using assms
    by (simp add: detect_spatial_conflicts_def detect_temporal_conflicts_def)
qed

theorem C10_fewer_than_two_witness:
  "detect_spatial_conflicts binary64 [] 50 1 = Inr []
   \<and> detect_temporal_conflicts binary64 [] 10 50 = Inr []
   \<and> detect_spatial_conflicts binary64
        [\<lparr>drone_id = ''A'', waypoints =
           [\<lparr>x = 0, y = 0, z = 100, timestamp = 0\<rparr>, \<lparr>x = 100, y = 0, z = 100, timestamp = 10\<rparr>]\<rparr>]
        50 1 = Inr []
   \<and> detect_temporal_conflicts binary64
        [\<lparr>drone_id = ''A'', waypoints =
           [\<lparr>x = 0, y = 0, z = 100, timestamp = 0\<rparr>, \<lparr>x = 100, y = 0, z = 100, timestamp = 10\<rparr>]\<rparr>]
        10 50 = Inr []
   \<and> detect_spatial_conflicts (\<lambda>v. v) [] 50 1 = Inr []
   \<and> detect_temporal_conflicts (\<lambda>v. v) [] 10 50 = Inr []"
proof -
  let ?A = "\<lparr>drone_id = ''A'', waypoints =
           [\<lparr>x = 0, y = 0, z = 100, timestamp = 0\<rparr>, \<lparr>x = 100, y = 0, z = 100, timestamp = 10\<rparr>]\<rparr>"
  have 0: "length ([] :: DroneTrajectory list) < 2" by simp
  have 1: "length [?A] < 2" by simp
  show ?thesis
    using C10_fewer_than_two [OF 0, of binary64 50 1 10] C10_fewer_than_two [OF 1, of binary64 50 1 10]
          C10_fewer_than_two [OF 0, of "\<lambda>v. v" 50 1 10]
    by simp
qed












text \<open>
  The time difference as the doubles have it. Sample 27 of the 50 timestamps of the bounds
  \<open>[0, 10]\<close> and sample 27 of those of \<open>[5, 15]\<close> are \<open>270/49\<close> and \<open>270/49 + 5\<close> in exact
  arithmetic, 5 apart. As doubles they are \<open>6203938262194051 / 2^50\<close> and
  \<open>2958359449101793 / 2^48\<close>, and their difference is \<open>5629499534213121 / 2^50\<close>, the double
  \<^verbatim>\<open>5.000000000000001\<close>: with a time window of 5 the pair is not reported, whatever the
  positions.
\<close>

lemma temporal_rounding_example:
  "\<exists>LA LB. linspace_rnd binary64 0 10 50 = Inr LA \<and> linspace_rnd binary64 5 15 50 = Inr LB
     \<and> LA ! 27 = 6203938262194051 / 1125899906842624
     \<and> LB ! 27 = 2958359449101793 / 281474976710656
     \<and> \<not> temporal_reported binary64 5 ms
           (\<lparr>x = a, y = b, z = c, timestamp = LA ! 27\<rparr>, \<lparr>x = a', y = b', z = c', timestamp = LB ! 27\<rparr>)"
proof -
  let ?s = "919101964769489 / 4503599627370496 :: real"
  let ?LA = "map (\<lambda>i. binary64 (binary64 (real i * ?s) + 0)) [0..<49] @ [10]"
  let ?LB = "map (\<lambda>i. binary64 (binary64 (real i * ?s) + 5)) [0..<49] @ [15]"
  have s: "binary64 (10 / 49) = ?s" using step49 by (simp add: binary64_10)
  have A: "linspace_rnd binary64 0 10 50 = Inr ?LA"
    by (simp add: linspace_rnd_def Let_def binary64_10 s)
  have B: "linspace_rnd binary64 5 15 50 = Inr ?LB"
    by (simp add: linspace_rnd_def Let_def binary64_10 s)
  have m: "real 27 * ?s = 24815753048776203 / 4503599627370496" by simp
  have "?LA ! 27 = binary64 (binary64 (real 27 * ?s) + 0)" by (simp add: nth_append)
  then have a27: "?LA ! 27 = 6203938262194051 / 1125899906842624"
    by (simp only: m sample27 sample27_A)
  have "?LB ! 27 = binary64 (binary64 (real 27 * ?s) + 5)" by (simp add: nth_append)
  then have b27: "?LB ! 27 = 2958359449101793 / 281474976710656"
    by (simp only: m sample27 sample27_B)
  have "\<not> temporal_reported binary64 5 ms
           (\<lparr>x = a, y = b, z = c, timestamp = 6203938262194051 / 1125899906842624\<rparr>,
            \<lparr>x = a', y = b', z = c', timestamp = 2958359449101793 / 281474976710656\<rparr>)"
    using diff27 by (simp add: temporal_reported_def)
  then have "\<not> temporal_reported binary64 5 ms
           (\<lparr>x = a, y = b, z = c, timestamp = ?LA ! 27\<rparr>, \<lparr>x = a', y = b', z = c', timestamp = ?LB ! 27\<rparr>)"
    unfolding a27 b27 .
  then show ?thesis using A B a27 b27 by blast
qed















section \<open>Interpolation at a waypoint: exact and rounded arithmetic\<close>

text \<open>
  The claim as stated fails in floating-point arithmetic. The trajectory goes from
  \<open>x = 1e16\<close> at time 0 to \<open>x = 1\<close> at time 10. At \<open>t = 10\<close> the fraction is 1.0 and
  the code computes \<open>1e16 + 1.0 * (1 - 1e16)\<close>; the difference \<open>1 - 1e16\<close> is not a double
  and rounds to \<open>-1e16\<close>, so the returned coordinate is 0 and not the waypoint's 1.
\<close>

theorem C5_binary64_counterexample:
  "interpolate_position_rnd binary64
     \<lparr>drone_id = ''d1'', waypoints =
        [\<lparr>x = 10000000000000000, y = 0, z = 0, timestamp = 0\<rparr>,
         \<lparr>x = 1, y = 0, z = 0, timestamp = 10\<rparr>]\<rparr> 10
   = Inr (Some \<lparr>x = 0, y = 0, z = 0, timestamp = 10\<rparr>)"
  by (simp add: interpolate_position_rnd_def Let_def binary64_10 binary64_1 binary64_minus_1e16 binary64_tie binary64_zero)

lemma interpolate_rnd_first:
  assumes "valid_trajectory T" "rnd 0 = 0"
    and "rnd (x (hd (waypoints T))) = x (hd (waypoints T))"
    and "rnd (y (hd (waypoints T))) = y (hd (waypoints T))"
    and "rnd (z (hd (waypoints T))) = z (hd (waypoints T))"
  shows "interpolate_position_rnd rnd T (Waypoint.timestamp (hd (waypoints T)))
           = Inr (Some (hd (waypoints T)))"
proof -
  obtain w1 w2 ws where ws: "waypoints T = w1 # w2 # ws"
    using assms(1) by (cases "waypoints T"; cases "tl (waypoints T)") (auto simp: valid_trajectory_def)
  have s: "sorted (map Waypoint.timestamp (w1 # w2 # ws))"
    and d: "distinct (map Waypoint.timestamp (w1 # w2 # ws))"
    using assms(1) ws by (simp_all add: valid_trajectory_def)
  have lt: "Waypoint.timestamp w1 < Waypoint.timestamp w2"
    using sorted_distinct_Cons2(1) [OF s d] .
  have "Waypoint.timestamp w2 \<le> Waypoint.timestamp (last (w2 # ws))"
    using s by (intro sorted_map_le_last) simp_all
  then have hi: "Waypoint.timestamp w1 \<le> Waypoint.timestamp (last (w2 # ws))" using lt by simp
  show ?thesis
    using assms(2-5) lt hi by (simp add: interpolate_position_rnd_def ws Let_def)
qed

text \<open>
  Claim C5, as the code has it. For a valid trajectory and \<open>t\<close> the timestamp of one of
  its waypoints: in exact arithmetic \<^verbatim>\<open>interpolate_position(t)\<close> returns that waypoint (the
  fraction is 0 at the left end of the bracketing pair and 1 at its right end). With
  binary64 rounding the first waypoint, whose fraction is 0, is returned exactly when its
  coordinates are doubles; a later waypoint is computed as \<open>w1 + 1.0 * (w2 - w1)\<close>, which
  rounding can move away from \<open>w2\<close>.
\<close>

theorem C5_waypoint_reproduced_up_to_rounding:
  assumes "valid_trajectory T"
  shows "(\<forall>w \<in> set (waypoints T).
            interpolate_position T (Waypoint.timestamp w) = Inr (Some w))
       \<and> (binary64 (x (hd (waypoints T))) = x (hd (waypoints T))
            \<and> binary64 (y (hd (waypoints T))) = y (hd (waypoints T))
            \<and> binary64 (z (hd (waypoints T))) = z (hd (waypoints T)) \<longrightarrow>
          interpolate_position_rnd binary64 T (Waypoint.timestamp (hd (waypoints T)))
            = Inr (Some (hd (waypoints T))))"
  using interpolate_at_waypoint [OF assms]
        interpolate_rnd_first [of T binary64, OF assms binary64_zero]
  by blast

theorem C5_waypoint_reproduced_witness:
  "interpolate_position \<lparr>drone_id = ''d1'', waypoints =
      [\<lparr>x = 0, y = 0, z = 0, timestamp = 0\<rparr>, \<lparr>x = 50, y = 25, z = 75, timestamp = 5\<rparr>,
       \<lparr>x = 100, y = 50, z = 100, timestamp = 10\<rparr>]\<rparr> 5
     = Inr (Some \<lparr>x = 50, y = 25, z = 75, timestamp = 5\<rparr>)
   \<and> interpolate_position_rnd binary64 \<lparr>drone_id = ''d1'', waypoints =
      [\<lparr>x = 0, y = 0, z = 0, timestamp = 0\<rparr>, \<lparr>x = 50, y = 25, z = 75, timestamp = 5\<rparr>,
       \<lparr>x = 100, y = 50, z = 100, timestamp = 10\<rparr>]\<rparr> 0
     = Inr (Some \<lparr>x = 0, y = 0, z = 0, timestamp = 0\<rparr>)"
proof -
  let ?T = "\<lparr>drone_id = ''d1'', waypoints =
      [\<lparr>x = 0, y = 0, z = 0, timestamp = 0\<rparr>, \<lparr>x = 50, y = 25, z = 75, timestamp = 5\<rparr>,
       \<lparr>x = 100, y = 50, z = 100, timestamp = 10\<rparr>]\<rparr>"
  have v: "valid_trajectory ?T" by (simp add: valid_trajectory_def)
  show ?thesis
    using C5_waypoint_reproduced_up_to_rounding [OF v] by (simp add: binary64_zero)
qed

end
